theory Spec2Isabelle
  imports Complex_Main
begin

section \<open>Off-policy G(PO)MDP gradient estimator\<close>

text \<open>
  A shallow embedding of \<^verbatim>\<open>potion/estimation/offpolicy_gradients.py\<close> and of the two
  helpers of \<^verbatim>\<open>potion/common/misc_utils.py\<close> it calls (\<^verbatim>\<open>unpack\<close>, \<^verbatim>\<open>discount\<close>).

  Tensors are nested lists: an \<open>N\<times>H\<close> tensor is a list of \<open>N\<close> rows of length \<open>H\<close>, an
  \<open>N\<times>H\<times>M\<close> tensor a list of \<open>N\<close> lists of \<open>H\<close> vectors of length \<open>M\<close>. Numbers are
  mathematical reals: rounding, overflow and underflow of the 32-bit floats are not
  modelled. The special values that the source handles itself are modelled: a division
  yields an infinity or not-a-number where the divisor is zero, and every operation after
  the division propagates them as IEEE arithmetic does (type \<open>fval\<close>). Signed zeros are
  not modelled: a zero divisor counts as \<open>+0\<close>.

  Shapes are checked where torch checks them: every operation on two tensors follows
  torch's broadcasting rule along each axis (equal sizes, or one of them 1) and raises
  otherwise, so every shape error of the program is an error of the model, at the same
  line.
\<close>

subsection \<open>Errors and special values\<close>

datatype error =
    ValueError            \<comment> \<open>destructuring a sequence of the wrong length\<close>
  | RuntimeError          \<comment> \<open>raised by torch on shapes that do not fit\<close>
  | IndexError            \<comment> \<open>raised by torch on reducing an axis of size zero, or indexing an empty tensor\<close>
  | NotImplementedError
  | PolicyError           \<comment> \<open>anything the policy object raises\<close>

datatype fval = Fin real | PInf | NInf | NaN

fun fneg :: "fval \<Rightarrow> fval" where
  "fneg (Fin x) = Fin (- x)"
| "fneg PInf = NInf"
| "fneg NInf = PInf"
| "fneg NaN = NaN"

fun fadd :: "fval \<Rightarrow> fval \<Rightarrow> fval" where
  "fadd (Fin a) (Fin b) = Fin (a + b)"
| "fadd (Fin a) PInf = PInf"
| "fadd (Fin a) NInf = NInf"
| "fadd PInf (Fin b) = PInf"
| "fadd NInf (Fin b) = NInf"
| "fadd PInf PInf = PInf"
| "fadd NInf NInf = NInf"
| "fadd PInf NInf = NaN"
| "fadd NInf PInf = NaN"
| "fadd NaN y = NaN"
| "fadd x NaN = NaN"

definition fsub :: "fval \<Rightarrow> fval \<Rightarrow> fval" where
  "fsub x y = fadd x (fneg y)"

definition inf_of_sign :: "real \<Rightarrow> fval" where
  "inf_of_sign s = (if s = 0 then NaN else if 0 < s then PInf else NInf)"

fun fmul :: "fval \<Rightarrow> fval \<Rightarrow> fval" where
  "fmul (Fin a) (Fin b) = Fin (a * b)"
| "fmul (Fin a) PInf = inf_of_sign a"
| "fmul (Fin a) NInf = inf_of_sign (- a)"
| "fmul PInf (Fin b) = inf_of_sign b"
| "fmul NInf (Fin b) = inf_of_sign (- b)"
| "fmul PInf PInf = PInf"
| "fmul NInf NInf = PInf"
| "fmul PInf NInf = NInf"
| "fmul NInf PInf = NInf"
| "fmul NaN y = NaN"
| "fmul x NaN = NaN"

fun fdiv :: "fval \<Rightarrow> fval \<Rightarrow> fval" where
  "fdiv (Fin a) (Fin b) = (if b = 0 then inf_of_sign a else Fin (a / b))"
| "fdiv (Fin a) PInf = Fin 0"
| "fdiv (Fin a) NInf = Fin 0"
| "fdiv PInf (Fin b) = (if 0 \<le> b then PInf else NInf)"
| "fdiv NInf (Fin b) = (if 0 \<le> b then NInf else PInf)"
| "fdiv PInf PInf = NaN"
| "fdiv NInf NInf = NaN"
| "fdiv PInf NInf = NaN"
| "fdiv NInf PInf = NaN"
| "fdiv NaN y = NaN"
| "fdiv x NaN = NaN"

definition fsum :: "fval list \<Rightarrow> fval" where
  "fsum xs = foldr fadd xs (Fin 0)"

text \<open>Collecting results, stopping at the first error as a raised exception does.\<close>

fun sequence :: "(error + 'b) list \<Rightarrow> error + 'b list" where
  "sequence [] = Inr []"
| "sequence (x # xs) =
     (case x of
        Inl e \<Rightarrow> Inl e
      | Inr y \<Rightarrow> (case sequence xs of Inl e \<Rightarrow> Inl e | Inr ys \<Rightarrow> Inr (y # ys)))"

subsection \<open>Trajectories and batch unpacking (\<^verbatim>\<open>misc_utils.py\<close>)\<close>

text \<open>
  A trajectory is a tuple of tensors whose first axis is time. The first four fields are
  the states, actions, rewards and mask; \<open>traj_rest\<close> holds the fields after the fourth,
  so a four-field tuple has \<open>traj_rest = []\<close> and a five-field one a singleton. States,
  actions and the trailing fields are lists over time of opaque per-step values.
\<close>

record ('s, 'a, 'x) trajectory =
  traj_states :: "'s list"
  traj_actions :: "'a list"
  traj_rewards :: "real list"
  traj_mask :: "real list"
  traj_rest :: "'x list list"

text \<open>
  \<^verbatim>\<open>torch.stack\<close> adds a leading axis; it raises when the tensors differ in shape
  (here: in length).
\<close>

definition stack :: "'b list list \<Rightarrow> error + 'b list list" where
  "stack xs = (if list_all (\<lambda>x. length x = length (hd xs)) xs then Inr xs else Inl RuntimeError)"

text \<open>
  \<^verbatim>\<open>states, actions, rewards, mask, _ = unpack(batch)\<close>, where \<^verbatim>\<open>unpack\<close> returns the
  generator \<^verbatim>\<open>(torch.stack(x) for x in zip(*batch))\<close>. \<^verbatim>\<open>zip\<close> stops at the shortest
  tuple, so there are \<open>4 + k\<close> columns with \<open>k\<close> the least number of trailing fields; of an
  empty batch there are none. The destructuring draws the columns one by one, stacking
  each as it is drawn, and asks for a sixth to see that the generator is exhausted: it
  raises \<open>ValueError\<close> unless there are exactly five.
\<close>

definition unpack ::
  "('s, 'a, 'x) trajectory list \<Rightarrow>
     error + ('s list list \<times> 'a list list \<times> real list list \<times> real list list)" where
  "unpack batch =
     (if batch = [] then Inl ValueError
      else case stack (map traj_states batch) of Inl e \<Rightarrow> Inl e | Inr states \<Rightarrow>
           case stack (map traj_actions batch) of Inl e \<Rightarrow> Inl e | Inr actions \<Rightarrow>
           case stack (map traj_rewards batch) of Inl e \<Rightarrow> Inl e | Inr rewards \<Rightarrow>
           case stack (map traj_mask batch) of Inl e \<Rightarrow> Inl e | Inr msk \<Rightarrow>
           if list_ex (\<lambda>tr. length (traj_rest tr) = 0) batch then Inl ValueError
           else case stack (map (\<lambda>tr. traj_rest tr ! 0) batch) of Inl e \<Rightarrow> Inl e | Inr _ \<Rightarrow>
           if list_ex (\<lambda>tr. length (traj_rest tr) = 1) batch
           then Inr (states, actions, rewards, msk)
           else case stack (map (\<lambda>tr. traj_rest tr ! 1) batch) of Inl e \<Rightarrow> Inl e
                | Inr _ \<Rightarrow> Inl ValueError)"

text \<open>
  \<^verbatim>\<open>discount(rewards, gamma)\<close> on the \<open>N\<times>H\<close> tensor the estimator passes (\<^verbatim>\<open>i = 1\<close>):
  entry \<open>(n, t)\<close> is multiplied by \<open>gamma ** t\<close>.
\<close>

definition discount :: "real list list \<Rightarrow> real \<Rightarrow> real list list" where
  "discount rewards gamma =
     map (\<lambda>row. map2 (\<lambda>r t. r * gamma ^ t) row [0..<length row]) rewards"

subsection \<open>Operations on two tensors\<close>

text \<open>
  Torch's rule along one axis: the sizes are equal, or one of them is 1 and that entry is
  repeated; any other pair of sizes raises \<open>RuntimeError\<close>. The function on the entries
  may itself be such an operation on the next axis.
\<close>

definition bzip :: "('b \<Rightarrow> 'c \<Rightarrow> error + 'd) \<Rightarrow> 'b list \<Rightarrow> 'c list \<Rightarrow> error + 'd list" where
  "bzip f xs ys =
     (if length xs = length ys then sequence (map2 f xs ys)
      else if length xs = 1 then sequence (map (f (hd xs)) ys)
      else if length ys = 1 then sequence (map (\<lambda>x. f x (hd ys)) xs)
      else Inl RuntimeError)"

definition entrywise :: "('b \<Rightarrow> 'c \<Rightarrow> 'd) \<Rightarrow> 'b \<Rightarrow> 'c \<Rightarrow> error + 'd" where
  "entrywise f a b = Inr (f a b)"

definition ew2 :: "('b \<Rightarrow> 'c \<Rightarrow> 'd) \<Rightarrow> 'b list list \<Rightarrow> 'c list list \<Rightarrow> error + 'd list list" where
  "ew2 f x y = bzip (bzip (entrywise f)) x y"

definition ew3 ::
  "('b \<Rightarrow> 'c \<Rightarrow> 'd) \<Rightarrow> 'b list list list \<Rightarrow> 'c list list list \<Rightarrow> error + 'd list list list" where
  "ew3 f x y = bzip (bzip (bzip (entrywise f))) x y"

subsection \<open>The policy\<close>

text \<open>
  Modelled from the spec: the policy class (\<^verbatim>\<open>potion.actors\<close>) is not part of the
  sources. It holds a flat parameter vector and exposes deterministic functions of a
  state and an action under its current parameters: \<^verbatim>\<open>log_pdf\<close> and \<^verbatim>\<open>score\<close>, the
  latter with one component per parameter. \<^verbatim>\<open>get_flat\<close> reads the vector,
  \<^verbatim>\<open>set_from_flat\<close> overwrites it. Either function may raise at a step, and raises when
  the states and the actions differ in their number of steps.
\<close>

record ('s, 'a) policy =
  flat :: "real list"
  log_pdf_at :: "real list \<Rightarrow> 's \<Rightarrow> 'a \<Rightarrow> error + real"
  score_at :: "real list \<Rightarrow> 's \<Rightarrow> 'a \<Rightarrow> error + (nat \<Rightarrow> real)"

definition get_flat :: "('s, 'a) policy \<Rightarrow> real list" where
  "get_flat pol = flat pol"

definition set_from_flat :: "real list \<Rightarrow> ('s, 'a) policy \<Rightarrow> ('s, 'a) policy" where
  "set_from_flat v pol = pol\<lparr>flat := v\<rparr>"

definition steps :: "('s \<Rightarrow> 'a \<Rightarrow> error + 'd) \<Rightarrow> 's list \<Rightarrow> 'a list \<Rightarrow> error + 'd list" where
  "steps f ss as =
     (if length ss = length as then sequence (map2 f ss as) else Inl PolicyError)"

definition log_pdf :: "('s, 'a) policy \<Rightarrow> 's list list \<Rightarrow> 'a list list \<Rightarrow> error + real list list" where
  "log_pdf pol states actions = steps (steps (log_pdf_at pol (flat pol))) states actions"

definition score_vec :: "('s, 'a) policy \<Rightarrow> 's \<Rightarrow> 'a \<Rightarrow> error + real list" where
  "score_vec pol s a =
     (case score_at pol (flat pol) s a of
        Inl e \<Rightarrow> Inl e
      | Inr f \<Rightarrow> Inr (map f [0..<length (flat pol)]))"

definition score :: "('s, 'a) policy \<Rightarrow> 's list list \<Rightarrow> 'a list list \<Rightarrow> error + real list list list" where
  "score pol states actions = steps (steps (score_vec pol)) states actions"

subsection \<open>Tensor operations\<close>

text \<open>
  Modelled from the spec: \<^verbatim>\<open>tensormat\<close> (\<^verbatim>\<open>potion.common.torch_utils\<close>) is not part of
  the sources. The spec writes \<open>scores \<odot> mask\<close>: entry \<open>(n, t, m)\<close> of the first argument
  is multiplied by entry \<open>(n, t)\<close> of the second, and shapes that do not fit raise (the
  spec's ShapeMismatch), by the rule torch applies to every product.
\<close>

definition tensormat :: "real list list list \<Rightarrow> real list list \<Rightarrow> error + real list list list" where
  "tensormat a b = bzip (bzip (entrywise (\<lambda>v c. map (\<lambda>x. x * c) v))) a b"

definition tensormat_f :: "fval list list list \<Rightarrow> real list list \<Rightarrow> error + fval list list list" where
  "tensormat_f a b = bzip (bzip (entrywise (\<lambda>v c. map (\<lambda>x. fmul x (Fin c)) v))) a b"

text \<open>\<^verbatim>\<open>torch.cumsum(x, 1)\<close> on an \<open>N\<times>H\<close> and on an \<open>N\<times>H\<times>M\<close> tensor.\<close>

fun cumsum_from :: "real \<Rightarrow> real list \<Rightarrow> real list" where
  "cumsum_from acc [] = []"
| "cumsum_from acc (x # xs) = (acc + x) # cumsum_from (acc + x) xs"

definition cumsum1 :: "real list list \<Rightarrow> real list list" where
  "cumsum1 x = map (cumsum_from 0) x"

fun vcumsum_from :: "real list \<Rightarrow> real list list \<Rightarrow> real list list" where
  "vcumsum_from acc [] = []"
| "vcumsum_from acc (v # vs) = map2 (+) acc v # vcumsum_from (map2 (+) acc v) vs"

fun vcumsum :: "real list list \<Rightarrow> real list list" where
  "vcumsum [] = []"
| "vcumsum (v # vs) = v # vcumsum_from v vs"

definition vcumsum1 :: "real list list list \<Rightarrow> real list list list" where
  "vcumsum1 x = map vcumsum x"

text \<open>
  Shapes: the sizes of the second and third axis, read off the first row. A nested list
  does not record the sizes behind an axis of size zero; they read as zero.
\<close>

definition dim1 :: "'b list list \<Rightarrow> nat" where
  "dim1 x = (case x of [] \<Rightarrow> 0 | r # _ \<Rightarrow> length r)"

definition dim2 :: "'b list list list \<Rightarrow> nat" where
  "dim2 x = (case x of [] \<Rightarrow> 0 | r # _ \<Rightarrow> dim1 r)"

text \<open>\<^verbatim>\<open>torch.sum(x, 0)\<close> on an \<open>N\<times>H\<close> and on an \<open>N\<times>H\<times>M\<close> tensor.\<close>

definition sum0_2 :: "real list list \<Rightarrow> real list" where
  "sum0_2 x = map (\<lambda>t. sum_list (map (\<lambda>row. row ! t) x)) [0..<dim1 x]"

definition sum0_3 :: "real list list list \<Rightarrow> real list list" where
  "sum0_3 x =
     map (\<lambda>t. map (\<lambda>m. sum_list (map (\<lambda>xn. xn ! t ! m) x)) [0..<dim2 x]) [0..<dim1 x]"

text \<open>
  \<^verbatim>\<open>torch.max(x, dim=1, keepdim=True)\<close>: the greatest entry of every row; it raises
  \<open>IndexError\<close> when the rows are empty.
\<close>

fun row_max :: "real list \<Rightarrow> error + real" where
  "row_max [] = Inl IndexError"
| "row_max (x # xs) = Inr (fold max xs x)"

definition max_dim1 :: "real list list \<Rightarrow> error + real list" where
  "max_dim1 x = sequence (map row_max x)"

subsection \<open>The estimator (\<^verbatim>\<open>offpolicy_gradients.py\<close>)\<close>

text \<open>The differences and products of lines 57, 61 and 70, and the entrywise functions.\<close>

definition sub2 :: "real list list \<Rightarrow> real list list \<Rightarrow> error + real list list" where
  "sub2 x y = ew2 (-) x y"

definition mul2 :: "real list list \<Rightarrow> real list list \<Rightarrow> error + real list list" where
  "mul2 x y = ew2 (*) x y"

definition exp2 :: "real list list \<Rightarrow> real list list" where
  "exp2 x = map (map exp) x"

definition pow2 :: "real list list list \<Rightarrow> real list list list" where
  "pow2 x = map (map (map (\<lambda>g. g ^ 2))) x"

text \<open>
  \<^verbatim>\<open>torch.exp(2*(log_iws - stabilizers))\<close>: the stabilizers have shape \<open>N\<times>1\<close>
  (\<^verbatim>\<open>keepdim=True\<close>), one per row of \<^verbatim>\<open>log_iws\<close>, and are repeated along time.
\<close>

definition stab_weights :: "real list list \<Rightarrow> real list \<Rightarrow> real list list" where
  "stab_weights log_iws stabilizers =
     map2 (\<lambda>row s. map (\<lambda>l. exp (2 * (l - s))) row) log_iws stabilizers"

text \<open>
  Lines 61 and 62: the quotient of two sums over the trajectories. The numerator is
  evaluated first, then the denominator, then the quotient.
\<close>

definition peters_num ::
  "real list list list \<Rightarrow> real list list \<Rightarrow> real list list \<Rightarrow> real list \<Rightarrow> error + real list list" where
  "peters_num G disc_rewards log_iws stabilizers =
     (case mul2 disc_rewards (stab_weights log_iws stabilizers) of
        Inl e \<Rightarrow> Inl e
      | Inr rw \<Rightarrow>
          (case tensormat (pow2 G) rw of Inl e \<Rightarrow> Inl e | Inr p \<Rightarrow> Inr (sum0_3 p)))"

definition peters_den ::
  "real list list list \<Rightarrow> real list list \<Rightarrow> real list \<Rightarrow> error + real list list" where
  "peters_den G log_iws stabilizers =
     (case tensormat (pow2 G) (stab_weights log_iws stabilizers) of
        Inl e \<Rightarrow> Inl e
      | Inr p \<Rightarrow> Inr (sum0_3 p))"

definition peters_baseline ::
  "real list list list \<Rightarrow> real list list \<Rightarrow> real list list \<Rightarrow> real list \<Rightarrow> error + fval list list" where
  "peters_baseline G disc_rewards log_iws stabilizers =
     (case peters_num G disc_rewards log_iws stabilizers of
        Inl e \<Rightarrow> Inl e
      | Inr num \<Rightarrow>
          (case peters_den G log_iws stabilizers of
             Inl e \<Rightarrow> Inl e
           | Inr den \<Rightarrow> ew2 (\<lambda>a b. fdiv (Fin a) (Fin b)) num den))"

text \<open>Line 64: \<^verbatim>\<open>torch.zeros_like(G[0])\<close>; indexing an empty tensor raises.\<close>

definition zero_baseline :: "real list list list \<Rightarrow> error + fval list list" where
  "zero_baseline G = (case G of [] \<Rightarrow> Inl IndexError | g # _ \<Rightarrow> Inr (map (map (\<lambda>_. Fin 0)) g))"

text \<open>Line 67: \<^verbatim>\<open>baseline[baseline != baseline] = 0\<close>; only not-a-number differs from itself.\<close>

definition scrub_nan :: "fval list list \<Rightarrow> fval list list" where
  "scrub_nan baseline = map (map (\<lambda>b. if b = NaN then Fin 0 else b)) baseline"

text \<open>
  Line 68: \<^verbatim>\<open>disc_rewards.unsqueeze(2) - baseline.unsqueeze(0)\<close>, an \<open>N\<times>H\<times>1\<close> tensor
  minus a \<open>1\<times>H\<times>M\<close> tensor: the baseline is repeated over the trajectories, the rewards
  over the parameter components, and the two time axes follow the rule above.
\<close>

definition values_of :: "real list list \<Rightarrow> fval list list \<Rightarrow> error + fval list list list" where
  "values_of disc_rewards baseline =
     sequence (map (\<lambda>row. bzip (entrywise (\<lambda>r brow. map (\<lambda>b. fsub (Fin r) b) brow)) row baseline)
       disc_rewards)"

text \<open>Line 70: \<^verbatim>\<open>G * values\<close>.\<close>

definition gmul :: "real list list list \<Rightarrow> fval list list list \<Rightarrow> error + fval list list list" where
  "gmul G vals = ew3 (\<lambda>g v. fmul (Fin g) v) G vals"

text \<open>\<^verbatim>\<open>torch.sum(x, 1)\<close> on \<open>N\<times>H\<times>M\<close> and \<^verbatim>\<open>torch.mean(x, 0)\<close> on \<open>N\<times>M\<close>.\<close>

definition sum1_f :: "fval list list list \<Rightarrow> fval list list" where
  "sum1_f x = map (\<lambda>xn. map (\<lambda>m. fsum (map (\<lambda>v. v ! m) xn)) [0..<dim2 x]) x"

definition mean0_f :: "fval list list \<Rightarrow> fval list" where
  "mean0_f x =
     map (\<lambda>m. fdiv (fsum (map (\<lambda>xn. xn ! m) x)) (Fin (real (length x)))) [0..<dim1 x]"

text \<open>
  The tensors that lines 45 to 58 hand to the rest of the function.
\<close>

record interm =
  i_disc_rewards :: "real list list"
  i_G :: "real list list list"
  i_mask :: "real list list"
  i_log_iws :: "real list list"
  i_stabilizers :: "real list"

datatype estimate = Samples "fval list list" | Mean "fval list"

text \<open>
  Lines 45 to 58. The policy is the state: the function returns it as the call leaves it,
  next to the tensors or the error raised.
\<close>

definition estimator_prepare ::
  "('s, 'a, 'x) trajectory list \<Rightarrow> real \<Rightarrow> ('s, 'a) policy \<Rightarrow> real list \<Rightarrow>
     (error + interm) \<times> ('s, 'a) policy" where
  "estimator_prepare batch disc pol target_params =
     (case unpack batch of
        Inl e \<Rightarrow> (Inl e, pol)
      | Inr (states, actions, rewards, msk) \<Rightarrow>
          let disc_rewards = discount rewards disc in
          (case score pol states actions of
             Inl e \<Rightarrow> (Inl e, pol)
           | Inr scores \<Rightarrow>
          (case tensormat scores msk of
             Inl e \<Rightarrow> (Inl e, pol)
           | Inr sm \<Rightarrow>
               let G = vcumsum1 sm;
                   n_k = map (\<lambda>c. if c = 0 then 1 else c) (sum0_2 msk)
               in
               (case log_pdf pol states actions of
                  Inl e \<Rightarrow> (Inl e, pol)
                | Inr behavioral_logps \<Rightarrow>
                    let behavioral_params = get_flat pol;
                        pol1 = set_from_flat target_params pol
                    in
                    (case log_pdf pol1 states actions of
                       Inl e \<Rightarrow> (Inl e, pol1)
                     | Inr target_logps \<Rightarrow>
                         let pol2 = set_from_flat behavioral_params pol1 in
                         (case sub2 target_logps behavioral_logps of
                            Inl e \<Rightarrow> (Inl e, pol2)
                          | Inr ratio \<Rightarrow>
                         let log_iws = cumsum1 ratio in
                         (case max_dim1 log_iws of
                            Inl e \<Rightarrow> (Inl e, pol2)
                          | Inr stabilizers \<Rightarrow>
                              (Inr \<lparr>i_disc_rewards = disc_rewards, i_G = G, i_mask = msk,
                                    i_log_iws = log_iws, i_stabilizers = stabilizers\<rparr>,
                               pol2))))))))"

text \<open>Lines 60 to 66: the baseline by kind; any other kind raises.\<close>

definition baseline_of :: "interm \<Rightarrow> string \<Rightarrow> error + fval list list" where
  "baseline_of x baselinekind =
     (if baselinekind = ''peters''
      then peters_baseline (i_G x) (i_disc_rewards x) (i_log_iws x) (i_stabilizers x)
      else if baselinekind = ''zero'' then zero_baseline (i_G x)
      else Inl NotImplementedError)"

text \<open>
  Lines 67 to 70: the per-trajectory estimates from a baseline. The arguments of
  \<^verbatim>\<open>tensormat\<close> are evaluated from left to right.
\<close>

definition samples_of :: "interm \<Rightarrow> fval list list \<Rightarrow> error + fval list list" where
  "samples_of x baseline0 =
     (let baseline = scrub_nan baseline0 in
      case values_of (i_disc_rewards x) baseline of
        Inl e \<Rightarrow> Inl e
      | Inr vals \<Rightarrow>
          (case gmul (i_G x) vals of
             Inl e \<Rightarrow> Inl e
           | Inr gv \<Rightarrow>
               (case mul2 (i_mask x) (exp2 (i_log_iws x)) of
                  Inl e \<Rightarrow> Inl e
                | Inr w \<Rightarrow>
                    (case tensormat_f gv w of
                       Inl e \<Rightarrow> Inl e
                     | Inr p \<Rightarrow> Inr (sum1_f p)))))"

text \<open>Lines 60 to 74.\<close>

definition estimator_finish :: "interm \<Rightarrow> string \<Rightarrow> string \<Rightarrow> error + estimate" where
  "estimator_finish x baselinekind result =
     (case baseline_of x baselinekind of
        Inl e \<Rightarrow> Inl e
      | Inr baseline0 \<Rightarrow>
          (case samples_of x baseline0 of
             Inl e \<Rightarrow> Inl e
           | Inr samples \<Rightarrow>
               if result = ''samples'' then Inr (Samples samples)
               else Inr (Mean (mean0_f samples))))"

definition shallow_off_gpomdp_estimator ::
  "('s, 'a, 'x) trajectory list \<Rightarrow> real \<Rightarrow> ('s, 'a) policy \<Rightarrow> real list \<Rightarrow> string \<Rightarrow> string \<Rightarrow>
     (error + estimate) \<times> ('s, 'a) policy" where
  "shallow_off_gpomdp_estimator batch disc pol target_params baselinekind result =
     (case estimator_prepare batch disc pol target_params of
        (Inl e, pol') \<Rightarrow> (Inl e, pol')
      | (Inr x, pol') \<Rightarrow> (estimator_finish x baselinekind result, pol'))"

definition off_gpomdp_estimator ::
  "('s, 'a, 'x) trajectory list \<Rightarrow> real \<Rightarrow> ('s, 'a) policy \<Rightarrow> real list \<Rightarrow> string \<Rightarrow> string \<Rightarrow> bool \<Rightarrow>
     (error + estimate) \<times> ('s, 'a) policy" where
  "off_gpomdp_estimator batch disc pol target_params baselinekind result shallow =
     (if shallow
      then shallow_off_gpomdp_estimator batch disc pol target_params baselinekind result
      else (Inl NotImplementedError, pol))"

subsection \<open>The estimator without the count of valid trajectories\<close>

text \<open>
  The same program with lines 50 and 51 (\<^verbatim>\<open>n_k = torch.sum(mask, dim=0)\<close> and
  \<^verbatim>\<open>n_k[n_k==0.] = 1.\<close>) removed. \<^verbatim>\<open>torch.sum\<close> returns a fresh tensor, so the
  assignment in place of line 51 does not reach \<^verbatim>\<open>mask\<close>.
\<close>

definition estimator_prepare_without_n_k ::
  "('s, 'a, 'x) trajectory list \<Rightarrow> real \<Rightarrow> ('s, 'a) policy \<Rightarrow> real list \<Rightarrow>
     (error + interm) \<times> ('s, 'a) policy" where
  "estimator_prepare_without_n_k batch disc pol target_params =
     (case unpack batch of
        Inl e \<Rightarrow> (Inl e, pol)
      | Inr (states, actions, rewards, msk) \<Rightarrow>
          let disc_rewards = discount rewards disc in
          (case score pol states actions of
             Inl e \<Rightarrow> (Inl e, pol)
           | Inr scores \<Rightarrow>
          (case tensormat scores msk of
             Inl e \<Rightarrow> (Inl e, pol)
           | Inr sm \<Rightarrow>
               let G = vcumsum1 sm in
               (case log_pdf pol states actions of
                  Inl e \<Rightarrow> (Inl e, pol)
                | Inr behavioral_logps \<Rightarrow>
                    let behavioral_params = get_flat pol;
                        pol1 = set_from_flat target_params pol
                    in
                    (case log_pdf pol1 states actions of
                       Inl e \<Rightarrow> (Inl e, pol1)
                     | Inr target_logps \<Rightarrow>
                         let pol2 = set_from_flat behavioral_params pol1 in
                         (case sub2 target_logps behavioral_logps of
                            Inl e \<Rightarrow> (Inl e, pol2)
                          | Inr ratio \<Rightarrow>
                         let log_iws = cumsum1 ratio in
                         (case max_dim1 log_iws of
                            Inl e \<Rightarrow> (Inl e, pol2)
                          | Inr stabilizers \<Rightarrow>
                              (Inr \<lparr>i_disc_rewards = disc_rewards, i_G = G, i_mask = msk,
                                    i_log_iws = log_iws, i_stabilizers = stabilizers\<rparr>,
                               pol2))))))))"

definition shallow_off_gpomdp_estimator_without_n_k ::
  "('s, 'a, 'x) trajectory list \<Rightarrow> real \<Rightarrow> ('s, 'a) policy \<Rightarrow> real list \<Rightarrow> string \<Rightarrow> string \<Rightarrow>
     (error + estimate) \<times> ('s, 'a) policy" where
  "shallow_off_gpomdp_estimator_without_n_k batch disc pol target_params baselinekind result =
     (case estimator_prepare_without_n_k batch disc pol target_params of
        (Inl e, pol') \<Rightarrow> (Inl e, pol')
      | (Inr x, pol') \<Rightarrow> (estimator_finish x baselinekind result, pol'))"

subsection \<open>Concrete inputs\<close>

text \<open>
  The scenario of the specification: one trajectory of two steps, both valid, rewards 1
  and 1, a score of 1 at every step for the single parameter, and a trailing fifth field.
  The log-density is any function \<open>lp\<close> of parameters, state and action.
\<close>

definition scenario_batch :: "(unit, unit, unit) trajectory list" where
  "scenario_batch =
     [\<lparr>traj_states = [(), ()], traj_actions = [(), ()], traj_rewards = [1, 1],
       traj_mask = [1, 1], traj_rest = [[(), ()]]\<rparr>]"

definition scenario_policy :: "(real list \<Rightarrow> unit \<Rightarrow> unit \<Rightarrow> real) \<Rightarrow> real list \<Rightarrow> (unit, unit) policy" where
  "scenario_policy lp theta =
     \<lparr>flat = theta, log_pdf_at = (\<lambda>th s a. Inr (lp th s a)), score_at = (\<lambda>th s a. Inr (\<lambda>m. 1))\<rparr>"

text \<open>
  A policy whose log-density raises under every parameter vector but \<open>[0]\<close>, as one
  does whose parameters have left the domain of the density.
\<close>

definition raising_policy :: "(unit, unit) policy" where
  "raising_policy =
     \<lparr>flat = [0],
      log_pdf_at = (\<lambda>th s a. if th = [0] then Inr 0 else Inl PolicyError),
      score_at = (\<lambda>th s a. Inr (\<lambda>m. 1))\<rparr>"

text \<open>The scenario's trajectory with four fields only.\<close>

definition four_field_batch :: "(unit, unit, unit) trajectory list" where
  "four_field_batch =
     [\<lparr>traj_states = [(), ()], traj_actions = [(), ()], traj_rewards = [1, 1],
       traj_mask = [1, 1], traj_rest = []\<rparr>]"

text \<open>
  The scenario's trajectory with a mask of three steps against two steps of states,
  actions and rewards, and with rewards of three steps against two of the other fields.
\<close>

definition long_mask_batch :: "(unit, unit, unit) trajectory list" where
  "long_mask_batch =
     [\<lparr>traj_states = [(), ()], traj_actions = [(), ()], traj_rewards = [1, 1],
       traj_mask = [1, 1, 1], traj_rest = [[(), ()]]\<rparr>]"

definition long_rewards_batch :: "(unit, unit, unit) trajectory list" where
  "long_rewards_batch =
     [\<lparr>traj_states = [(), ()], traj_actions = [(), ()], traj_rewards = [1, 1, 1],
       traj_mask = [1, 1], traj_rest = [[(), ()]]\<rparr>]"

subsection \<open>Exit paths\<close>

text \<open>
  The call leaves through an exception of line 55, the evaluation of the log-density under
  the target parameters: lines 45 to 54 have passed and \<^verbatim>\<open>policy.log_pdf\<close> raises.
\<close>

definition target_eval_raises ::
  "('s, 'a, 'x) trajectory list \<Rightarrow> ('s, 'a) policy \<Rightarrow> real list \<Rightarrow> bool" where
  "target_eval_raises batch pol target_params =
     (case unpack batch of
        Inl e \<Rightarrow> False
      | Inr (states, actions, rewards, msk) \<Rightarrow>
          (case score pol states actions of
             Inl e \<Rightarrow> False
           | Inr scores \<Rightarrow>
          (case tensormat scores msk of
             Inl e \<Rightarrow> False
           | Inr sm \<Rightarrow>
               (case log_pdf pol states actions of
                  Inl e \<Rightarrow> False
                | Inr behavioral_logps \<Rightarrow>
                    isl (log_pdf (set_from_flat target_params pol) states actions)))))"

section \<open>Auxiliary facts\<close>

lemmas prepare_defs =
  estimator_prepare_def unpack_def stack_def discount_def score_def score_vec_def
  log_pdf_def steps_def tensormat_def bzip_def entrywise_def ew2_def ew3_def vcumsum1_def
  sum0_2_def dim1_def dim2_def get_flat_def set_from_flat_def cumsum1_def sub2_def max_dim1_def

lemmas finish_defs =
  shallow_off_gpomdp_estimator_def estimator_finish_def baseline_of_def samples_of_def
  zero_baseline_def scrub_nan_def values_of_def gmul_def sum1_f_def tensormat_f_def mul2_def
  exp2_def fsub_def fsum_def mean0_f_def peters_baseline_def peters_num_def peters_den_def
  sum0_3_def pow2_def stab_weights_def bzip_def entrywise_def ew2_def ew3_def dim1_def dim2_def
  tensormat_def

subsection \<open>The policy state\<close>

lemma set_from_flat_restore:
  "set_from_flat (get_flat pol) (set_from_flat v pol) = pol"
  by (simp add: set_from_flat_def get_flat_def)

lemma prepare_policy:
  "snd (estimator_prepare batch disc pol target_params) =
     (if target_eval_raises batch pol target_params then set_from_flat target_params pol else pol)"
  unfolding estimator_prepare_def target_eval_raises_def Let_def set_from_flat_restore
  by (auto split: sum.splits prod.splits)

lemma estimator_policy:
  "snd (shallow_off_gpomdp_estimator batch disc pol target_params baselinekind result) =
   snd (estimator_prepare batch disc pol target_params)"
  unfolding shallow_off_gpomdp_estimator_def
  by (simp split: sum.splits prod.splits)

lemma prepare_restores:
  "estimator_prepare batch disc pol target_params = (Inr x, pol') \<Longrightarrow> pol' = pol"
  unfolding estimator_prepare_def Let_def set_from_flat_restore
  by (auto split: sum.splits prod.splits)

lemma scenario_prepare:
  "estimator_prepare scenario_batch (1/2) (scenario_policy lp [p]) [q] =
     (Inr \<lparr>i_disc_rewards = [[1, 1/2]], i_G = [[[1], [2]]], i_mask = [[1, 1]],
           i_log_iws = [[lp [q] () () - lp [p] () (), 2 * (lp [q] () () - lp [p] () ())]],
           i_stabilizers = [max (lp [q] () () - lp [p] () ()) (2 * (lp [q] () () - lp [p] () ()))]\<rparr>,
      scenario_policy lp [p])"
  by (simp add: prepare_defs scenario_batch_def scenario_policy_def max_def)


subsection \<open>Lists of results\<close>

lemma sequence_Inr:
  "sequence xs = Inr ys \<Longrightarrow> length ys = length xs \<and> (\<forall>i<length xs. xs ! i = Inr (ys ! i))"
proof (induction xs arbitrary: ys)
  case Nil
  then show ?case by simp
next
  case (Cons x xs)
  from Cons.prems obtain y zs where x: "x = Inr y" and zs: "sequence xs = Inr zs" and ys: "ys = y # zs"
    by (auto split: sum.splits)
  from Cons.IH [OF zs] show ?case
    by (auto simp: x ys nth_Cons split: nat.splits)
qed

lemma sequence_map_Inr: "sequence (map Inr ys) = Inr ys"
  by (induction ys) auto

lemma sequence_Inr_iff: "sequence xs = Inr ys \<longleftrightarrow> xs = map Inr ys"
proof
  assume h: "sequence xs = Inr ys"
  from sequence_Inr [OF h] show "xs = map Inr ys"
    by (intro nth_equalityI) auto
next
  assume "xs = map Inr ys"
  then show "sequence xs = Inr ys" by (simp add: sequence_map_Inr)
qed

lemma sequence_Inl: "sequence xs = Inl e \<Longrightarrow> Inl e \<in> set xs"
  by (induction xs) (auto split: sum.splits)

subsection \<open>Errors of the operations on two tensors\<close>

lemma bzip_Inl:
  assumes "bzip f xs ys = Inl e"
  shows "e = RuntimeError \<or> (\<exists>x y. f x y = Inl e)"
proof (cases "length xs = length ys")
  case True
  then have "sequence (map2 f xs ys) = Inl e" using assms by (simp add: bzip_def)
  from sequence_Inl [OF this] obtain p where "Inl e = (case p of (x, y) \<Rightarrow> f x y)"
    by (auto simp del: in_set_zip)
  then obtain x y where "f x y = Inl e" by (cases p) auto
  then show ?thesis by blast
next
  case ne: False
  show ?thesis
  proof (cases "length xs = 1")
    case True
    then have "sequence (map (f (hd xs)) ys) = Inl e"
      using assms ne by (simp add: bzip_def)
    from sequence_Inl [OF this] obtain y where "f (hd xs) y = Inl e" by auto
    then show ?thesis by blast
  next
    case n1: False
    show ?thesis
    proof (cases "length ys = 1")
      case True
      then have "sequence (map (\<lambda>x. f x (hd ys)) xs) = Inl e"
        using assms ne n1 by (simp add: bzip_def)
      from sequence_Inl [OF this] obtain x where "f x (hd ys) = Inl e" by auto
      then show ?thesis by blast
    next
      case False
      then have "e = RuntimeError"
        using assms ne n1 by (simp add: bzip_def)
      then show ?thesis ..
    qed
  qed
qed

lemma bzip_entrywise_Inl: "bzip (entrywise f) xs ys = Inl e \<Longrightarrow> e = RuntimeError"
  by (drule bzip_Inl) (simp add: entrywise_def)

lemma bzip2_entrywise_Inl: "bzip (bzip (entrywise f)) x y = Inl e \<Longrightarrow> e = RuntimeError"
  by (drule bzip_Inl) (auto dest: bzip_entrywise_Inl)

lemma bzip3_entrywise_Inl: "bzip (bzip (bzip (entrywise f))) x y = Inl e \<Longrightarrow> e = RuntimeError"
  by (drule bzip_Inl) (auto dest: bzip2_entrywise_Inl)

lemma ew2_Inl: "ew2 f x y = Inl e \<Longrightarrow> e = RuntimeError"
  unfolding ew2_def by (rule bzip2_entrywise_Inl)

lemma ew3_Inl: "ew3 f x y = Inl e \<Longrightarrow> e = RuntimeError"
  unfolding ew3_def by (rule bzip3_entrywise_Inl)

lemma tensormat_Inl: "tensormat a b = Inl e \<Longrightarrow> e = RuntimeError"
  unfolding tensormat_def by (rule bzip2_entrywise_Inl)

lemma tensormat_f_Inl: "tensormat_f a b = Inl e \<Longrightarrow> e = RuntimeError"
  unfolding tensormat_f_def by (rule bzip2_entrywise_Inl)

lemma values_of_Inl: "values_of r b = Inl e \<Longrightarrow> e = RuntimeError"
  unfolding values_of_def by (drule sequence_Inl) (auto dest: bzip_entrywise_Inl [OF sym])

lemma peters_baseline_Inl: "peters_baseline G r l s = Inl e \<Longrightarrow> e = RuntimeError"
  unfolding peters_baseline_def peters_num_def peters_den_def mul2_def
  by (auto split: sum.splits dest: ew2_Inl tensormat_Inl)

lemma samples_of_Inl: "samples_of x b = Inl e \<Longrightarrow> e = RuntimeError"
  unfolding samples_of_def Let_def gmul_def mul2_def
  by (auto split: sum.splits dest: values_of_Inl ew2_Inl ew3_Inl tensormat_f_Inl)

lemma finish_Inl:
  assumes "estimator_finish x baselinekind result = Inl e"
    and "baselinekind = ''peters'' \<or> baselinekind = ''zero''" and "i_G x \<noteq> []"
  shows "e = RuntimeError"
  using assms unfolding estimator_finish_def baseline_of_def zero_baseline_def
  by (auto split: sum.splits if_splits list.splits dest: peters_baseline_Inl samples_of_Inl)


subsection \<open>What a call that passes lines 45 to 58 has computed\<close>

lemma prepare_Inr:
  assumes "estimator_prepare batch disc pol target_params = (Inr x, pol')"
  obtains states actions rewards msk scores sm blp tlp ratio where
    "unpack batch = Inr (states, actions, rewards, msk)"
    "score pol states actions = Inr scores"
    "tensormat scores msk = Inr sm"
    "log_pdf pol states actions = Inr blp"
    "log_pdf (set_from_flat target_params pol) states actions = Inr tlp"
    "sub2 tlp blp = Inr ratio"
    "max_dim1 (cumsum1 ratio) = Inr (i_stabilizers x)"
    "i_disc_rewards x = discount rewards disc"
    "i_G x = vcumsum1 sm"
    "i_mask x = msk"
    "i_log_iws x = cumsum1 ratio"
    "pol' = pol"
  using assms unfolding estimator_prepare_def Let_def set_from_flat_restore
  by (auto split: sum.splits prod.splits)

lemma stack_Inr:
  "stack xs = Inr ys \<longleftrightarrow> ys = xs \<and> (\<forall>x\<in>set xs. length x = length (hd xs))"
  by (auto simp: stack_def list_all_iff)

lemma steps_Inr:
  assumes "steps f ss as = Inr r"
  shows "length as = length ss" "length r = length ss"
    and "i < length ss \<Longrightarrow> f (ss ! i) (as ! i) = Inr (r ! i)"
proof -
  show len: "length as = length ss" using assms by (auto simp: steps_def split: if_splits)
  then have seq: "sequence (map2 f ss as) = Inr r" using assms by (simp add: steps_def)
  from sequence_Inr [OF seq] len show "length r = length ss" by simp
  show "f (ss ! i) (as ! i) = Inr (r ! i)" if "i < length ss"
    using sequence_Inr [OF seq] len that by simp
qed

lemma bzip_same_Inr:
  assumes "bzip f xs ys = Inr zs" "length xs = length ys"
  shows "length zs = length xs" and "i < length xs \<Longrightarrow> f (xs ! i) (ys ! i) = Inr (zs ! i)"
proof -
  have seq: "sequence (map2 f xs ys) = Inr zs" using assms by (simp add: bzip_def)
  from sequence_Inr [OF seq] assms(2) show "length zs = length xs" by simp
  show "f (xs ! i) (ys ! i) = Inr (zs ! i)" if "i < length xs"
    using sequence_Inr [OF seq] assms(2) that by simp
qed

lemma unpack_nonempty:
  assumes "unpack batch = Inr (states, actions, rewards, msk)"
  shows "batch \<noteq> []" "length states = length batch" "length msk = length batch"
proof -
  show ne: "batch \<noteq> []" using assms by (auto simp: unpack_def)
  obtain s where s: "stack (map traj_states batch) = Inr s"
    using assms ne by (cases "stack (map traj_states batch)") (simp_all add: unpack_def)
  obtain a where a: "stack (map traj_actions batch) = Inr a"
    using assms ne s by (cases "stack (map traj_actions batch)") (simp_all add: unpack_def)
  obtain r where r: "stack (map traj_rewards batch) = Inr r"
    using assms ne s a by (cases "stack (map traj_rewards batch)") (simp_all add: unpack_def)
  obtain k where k: "stack (map traj_mask batch) = Inr k"
    using assms ne s a r by (cases "stack (map traj_mask batch)") (simp_all add: unpack_def)
  have "(if list_ex (\<lambda>tr. length (traj_rest tr) = 0) batch then Inl ValueError
           else case stack (map (\<lambda>tr. traj_rest tr ! 0) batch) of Inl e \<Rightarrow> Inl e | Inr _ \<Rightarrow>
           if list_ex (\<lambda>tr. length (traj_rest tr) = 1) batch
           then Inr (s, a, r, k)
           else case stack (map (\<lambda>tr. traj_rest tr ! 1) batch) of Inl e \<Rightarrow> Inl e
                | Inr _ \<Rightarrow> Inl ValueError) = Inr (states, actions, rewards, msk)"
    using assms unfolding unpack_def by (simp only: ne s a r k if_False sum.case)
  then have "(s, a, r, k) = (states, actions, rewards, msk)"
    by (cases "list_ex (\<lambda>tr. length (traj_rest tr) = 0) batch";
        cases "stack (map (\<lambda>tr. traj_rest tr ! 0) batch)";
        cases "list_ex (\<lambda>tr. length (traj_rest tr) = 1) batch";
        cases "stack (map (\<lambda>tr. traj_rest tr ! 1) batch)") simp_all
  then have eqs: "states = s" "msk = k" by simp_all
  have "s = map traj_states batch" using s [unfolded stack_Inr] by (rule conjunct1)
  then show "length states = length batch" unfolding eqs by simp
  have "k = map traj_mask batch" using k [unfolded stack_Inr] by (rule conjunct1)
  then show "length msk = length batch" unfolding eqs by simp
qed

lemma prepare_G_nonempty:
  assumes "estimator_prepare batch disc pol target_params = (Inr x, pol')"
  shows "i_G x \<noteq> []"
proof -
  from assms obtain states actions rewards msk scores sm where
    u: "unpack batch = Inr (states, actions, rewards, msk)"
    and sc: "score pol states actions = Inr scores"
    and tm: "tensormat scores msk = Inr sm"
    and g: "i_G x = vcumsum1 sm"
    by (rule prepare_Inr)
  note un = unpack_nonempty [OF u]
  have "length scores = length states"
    using steps_Inr(2) [OF sc [unfolded score_def]] .
  then have "length scores = length msk" using un by simp
  from bzip_same_Inr(1) [OF tm [unfolded tensormat_def] this]
  have "length sm = length batch" using \<open>length scores = length states\<close> un by simp
  then show ?thesis using un(1) by (auto simp: g vcumsum1_def)
qed

lemma long_mask_prepare:
  "estimator_prepare long_mask_batch disc raising_policy target_params =
     (Inl RuntimeError, raising_policy)"
  by (simp add: prepare_defs long_mask_batch_def raising_policy_def)

lemma long_rewards_prepare:
  "estimator_prepare long_rewards_batch (1/2) (scenario_policy (\<lambda>th s a. 0) [0]) [0] =
     (Inr \<lparr>i_disc_rewards = [[1, 1/2, 1/4]], i_G = [[[1], [2]]], i_mask = [[1, 1]],
           i_log_iws = [[0, 0]], i_stabilizers = [0]\<rparr>, scenario_policy (\<lambda>th s a. 0) [0])"
  by (simp add: prepare_defs long_rewards_batch_def scenario_policy_def)

subsection \<open>The stabilizers\<close>






section \<open>The claims\<close>

text \<open>
  C5. In the concrete scenario (N = 1, H = 2, one parameter, rewards 1 and 1, discount
  1/2, mask 1 and 1, scores 1 and 1, target parameters equal to the behaviour parameters,
  zero baseline) the intermediates are \<open>log_iw = [0, 0]\<close>, \<open>G = [[1], [2]]\<close>,
  \<open>disc_rewards = [1, 1/2]\<close>, and the per-trajectory estimate is 2; so is the mean.
  This holds for every log-density function and every parameter value.
\<close>

theorem concrete_scenario:
  "estimator_prepare scenario_batch (1/2) (scenario_policy lp [p]) [p] =
     (Inr \<lparr>i_disc_rewards = [[1, 1/2]], i_G = [[[1], [2]]], i_mask = [[1, 1]],
           i_log_iws = [[0, 0]], i_stabilizers = [0]\<rparr>, scenario_policy lp [p])
   \<and> shallow_off_gpomdp_estimator scenario_batch (1/2) (scenario_policy lp [p]) [p] ''zero'' ''samples''
       = (Inr (Samples [[Fin 2]]), scenario_policy lp [p])
   \<and> shallow_off_gpomdp_estimator scenario_batch (1/2) (scenario_policy lp [p]) [p] ''zero'' ''mean''
       = (Inr (Mean [Fin 2]), scenario_policy lp [p])"
  unfolding shallow_off_gpomdp_estimator_def scenario_prepare
  by (simp add: finish_defs)

theorem concrete_scenario_witness:
  "shallow_off_gpomdp_estimator scenario_batch (1/2) (scenario_policy (\<lambda>th s a. 0) [0]) [0] ''zero'' ''samples''
     = (Inr (Samples [[Fin 2]]), scenario_policy (\<lambda>th s a. 0) [0])"
  using concrete_scenario [of "\<lambda>th s a. 0" 0] by simp

text \<open>
  C10. The value returned does not depend on the count \<open>n_k\<close> of valid trajectories per
  timestep: the program with lines 50 and 51 removed returns the same result and leaves
  the policy in the same state, on every input.
\<close>

theorem n_k_is_dead:
  "shallow_off_gpomdp_estimator_without_n_k batch disc pol target_params baselinekind result =
   shallow_off_gpomdp_estimator batch disc pol target_params baselinekind result"
proof -
  have "estimator_prepare_without_n_k batch disc pol target_params =
        estimator_prepare batch disc pol target_params"
    unfolding estimator_prepare_without_n_k_def estimator_prepare_def Let_def ..
  then show ?thesis
    unfolding shallow_off_gpomdp_estimator_without_n_k_def shallow_off_gpomdp_estimator_def
    by simp
qed

theorem n_k_is_dead_witness:
  "shallow_off_gpomdp_estimator_without_n_k scenario_batch (1/2) (scenario_policy (\<lambda>th s a. 0) [0]) [0] ''peters'' ''mean'' =
   shallow_off_gpomdp_estimator scenario_batch (1/2) (scenario_policy (\<lambda>th s a. 0) [0]) [0] ''peters'' ''mean''"
  using n_k_is_dead [of scenario_batch "1/2" "scenario_policy (\<lambda>th s a. 0) [0]" "[0]" "''peters''" "''mean''"]
  by simp

text \<open>
  C9. A batch of four-field trajectories is what the docstring of the estimator
  describes, and the claim says it is accepted. The code destructures the unpacked batch
  into five names: the four-field batch raises \<open>ValueError\<close>, and the same batch with a
  fifth field returns the estimate.
\<close>

theorem four_field_batch_rejected:
  "fst (shallow_off_gpomdp_estimator four_field_batch (1/2) (scenario_policy (\<lambda>th s a. 0) [0]) [0] ''zero'' ''mean'')
     = Inl ValueError
   \<and> fst (shallow_off_gpomdp_estimator scenario_batch (1/2) (scenario_policy (\<lambda>th s a. 0) [0]) [0] ''zero'' ''mean'')
     = Inr (Mean [Fin 2])"
  by (simp add: finish_defs prepare_defs four_field_batch_def scenario_batch_def scenario_policy_def)

text \<open>
  C1, as the code has it. The claim that the parameters are restored on every exit path
  fails: lines 53 to 56 are plain statements, line 56 is not reached when line 55 raises,
  and the policy keeps the target parameters (first theorem, at a policy whose
  log-density raises under the target parameters \<open>[1]\<close>). What holds: the policy object is
  left exactly as it was on every exit path but that one (normal return, and any error
  raised before the swap, a shape error of line 49 among them, or after the restoration),
  and holds the target parameters when the evaluation of the target log-density raises.
\<close>

theorem parameter_restoration_counterexample:
  "get_flat (snd (shallow_off_gpomdp_estimator scenario_batch 1 raising_policy [1] ''zero'' ''mean''))
     \<noteq> get_flat raising_policy"
  by (simp add: shallow_off_gpomdp_estimator_def prepare_defs scenario_batch_def raising_policy_def)

theorem parameters_restored_unless_target_raises:
  "snd (shallow_off_gpomdp_estimator batch disc pol target_params baselinekind result) =
     (if target_eval_raises batch pol target_params then set_from_flat target_params pol else pol)
   \<and> get_flat (snd (shallow_off_gpomdp_estimator batch disc pol target_params baselinekind result)) =
     (if target_eval_raises batch pol target_params then target_params else get_flat pol)"
  by (simp add: estimator_policy prepare_policy get_flat_def set_from_flat_def)

theorem parameters_restored_witness:
  "get_flat (snd (shallow_off_gpomdp_estimator scenario_batch (1/2) (scenario_policy (\<lambda>th s a. 0) [0]) [1] ''zero'' ''mean'')) = [0]
   \<and> get_flat (snd (shallow_off_gpomdp_estimator scenario_batch 1 raising_policy [1] ''zero'' ''mean'')) = [1]
   \<and> get_flat (snd (shallow_off_gpomdp_estimator long_mask_batch 1 raising_policy [1] ''zero'' ''mean'')) = [0]"
  using parameters_restored_unless_target_raises [of scenario_batch "1/2" "scenario_policy (\<lambda>th s a. 0) [0]" "[1]" "''zero''" "''mean''"]
    parameters_restored_unless_target_raises [of scenario_batch 1 raising_policy "[1]" "''zero''" "''mean''"]
    parameters_restored_unless_target_raises [of long_mask_batch 1 raising_policy "[1]" "''zero''" "''mean''"]
  by (simp add: target_eval_raises_def unpack_def stack_def score_def score_vec_def log_pdf_def
      steps_def tensormat_def bzip_def entrywise_def set_from_flat_def get_flat_def
      scenario_batch_def long_mask_batch_def raising_policy_def scenario_policy_def)

text \<open>
  C3, as the code has it. The claim that a result mode other than \<open>mean\<close> and \<open>samples\<close>
  raises fails: every mode that is not \<open>samples\<close> returns the mean (first theorem, mode
  \<open>median\<close>). What holds, once lines 45 to 58 have passed, with the policy restored in
  every case: a baseline kind other than \<open>peters\<close> and \<open>zero\<close>, \<open>avg\<close> among them, raises
  the one error \<open>NotImplementedError\<close>; under \<open>peters\<close> and \<open>zero\<close> the call either raises
  torch's shape error from lines 61 to 70, and then does so under every result mode, or
  returns the per-trajectory estimates under the mode \<open>samples\<close> and exactly their mean
  under every other mode.
\<close>

theorem result_mode_counterexample:
  "shallow_off_gpomdp_estimator scenario_batch (1/2) (scenario_policy (\<lambda>th s a. 0) [0]) [0] ''zero'' ''median''
     = (Inr (Mean [Fin 2]), scenario_policy (\<lambda>th s a. 0) [0])"
  unfolding shallow_off_gpomdp_estimator_def scenario_prepare
  by (simp add: finish_defs)

theorem kind_and_mode_handling:
  "estimator_prepare batch disc pol target_params = (Inr x, pol') \<Longrightarrow>
     pol' = pol
   \<and> (baselinekind \<noteq> ''peters'' \<and> baselinekind \<noteq> ''zero'' \<longrightarrow>
        shallow_off_gpomdp_estimator batch disc pol target_params baselinekind result
          = (Inl NotImplementedError, pol))
   \<and> (baselinekind = ''peters'' \<or> baselinekind = ''zero'' \<longrightarrow>
        (case fst (shallow_off_gpomdp_estimator batch disc pol target_params baselinekind ''samples'') of
           Inl e \<Rightarrow>
             e = RuntimeError \<and>
             shallow_off_gpomdp_estimator batch disc pol target_params baselinekind result = (Inl e, pol)
         | Inr r \<Rightarrow>
             (\<exists>s. r = Samples s \<and>
                shallow_off_gpomdp_estimator batch disc pol target_params baselinekind result
                  = (Inr (if result = ''samples'' then Samples s else Mean (mean0_f s)), pol))))"
proof -
  assume prep: "estimator_prepare batch disc pol target_params = (Inr x, pol')"
  have pol: "pol' = pol" by (rule prepare_restores [OF prep])
  have est: "shallow_off_gpomdp_estimator batch disc pol target_params k r =
      (estimator_finish x k r, pol)" for k r
    by (simp add: shallow_off_gpomdp_estimator_def prep pol)
  have other: "estimator_finish x baselinekind result = Inl NotImplementedError"
    if "baselinekind \<noteq> ''peters'' \<and> baselinekind \<noteq> ''zero''"
    using that by (simp add: estimator_finish_def baseline_of_def)
  have known: "(case estimator_finish x baselinekind ''samples'' of
           Inl e \<Rightarrow> e = RuntimeError \<and> estimator_finish x baselinekind result = Inl e
         | Inr r \<Rightarrow> (\<exists>s. r = Samples s \<and> estimator_finish x baselinekind result =
               Inr (if result = ''samples'' then Samples s else Mean (mean0_f s))))"
    if k: "baselinekind = ''peters'' \<or> baselinekind = ''zero''"
  proof (cases "estimator_finish x baselinekind ''samples''")
    case (Inl e)
    have "e = RuntimeError"
      by (rule finish_Inl [OF Inl k prepare_G_nonempty [OF prep]])
    moreover have "estimator_finish x baselinekind result = Inl e"
      using Inl by (auto simp: estimator_finish_def split: sum.splits)
    ultimately show ?thesis using Inl by simp
  next
    case (Inr r)
    then show ?thesis
      by (auto simp: estimator_finish_def split: sum.splits)
  qed
  show ?thesis
  proof (intro conjI impI)
    show "pol' = pol" by (rule pol)
    show "shallow_off_gpomdp_estimator batch disc pol target_params baselinekind result
          = (Inl NotImplementedError, pol)"
      if "baselinekind \<noteq> ''peters'' \<and> baselinekind \<noteq> ''zero''"
      using other [OF that] by (simp add: est)
    show "(case fst (shallow_off_gpomdp_estimator batch disc pol target_params baselinekind ''samples'') of
           Inl e \<Rightarrow>
             e = RuntimeError \<and>
             shallow_off_gpomdp_estimator batch disc pol target_params baselinekind result = (Inl e, pol)
         | Inr r \<Rightarrow>
             (\<exists>s. r = Samples s \<and>
                shallow_off_gpomdp_estimator batch disc pol target_params baselinekind result
                  = (Inr (if result = ''samples'' then Samples s else Mean (mean0_f s)), pol)))"
      if "baselinekind = ''peters'' \<or> baselinekind = ''zero''"
      using known [OF that] unfolding est fst_conv
      by (cases "estimator_finish x baselinekind ''samples''") auto
  qed
qed

theorem kind_and_mode_handling_witness:
  "shallow_off_gpomdp_estimator scenario_batch (1/2) (scenario_policy (\<lambda>th s a. 0) [0]) [0] ''avg'' ''mean''
     = (Inl NotImplementedError, scenario_policy (\<lambda>th s a. 0) [0])
   \<and> shallow_off_gpomdp_estimator scenario_batch (1/2) (scenario_policy (\<lambda>th s a. 0) [0]) [0] ''zero'' ''median''
     = (Inr (Mean [Fin 2]), scenario_policy (\<lambda>th s a. 0) [0])
   \<and> shallow_off_gpomdp_estimator long_rewards_batch (1/2) (scenario_policy (\<lambda>th s a. 0) [0]) [0] ''zero'' ''median''
     = (Inl RuntimeError, scenario_policy (\<lambda>th s a. 0) [0])"
proof -
  let ?P = "scenario_policy (\<lambda>th s a. 0) [0]"
  have p1: "estimator_prepare scenario_batch (1/2) ?P [0] =
     (Inr \<lparr>i_disc_rewards = [[1, 1/2]], i_G = [[[1], [2]]], i_mask = [[1, 1]],
           i_log_iws = [[0, 0]], i_stabilizers = [0]\<rparr>, ?P)"
    using scenario_prepare [of "\<lambda>th s a. 0" 0 0] by simp
  have s1: "fst (shallow_off_gpomdp_estimator scenario_batch (1/2) ?P [0] ''zero'' ''samples'')
      = Inr (Samples [[Fin 2]])"
    unfolding shallow_off_gpomdp_estimator_def p1 by (simp add: finish_defs)
  have s2: "fst (shallow_off_gpomdp_estimator long_rewards_batch (1/2) ?P [0] ''zero'' ''samples'')
      = Inl RuntimeError"
    unfolding shallow_off_gpomdp_estimator_def long_rewards_prepare by (simp add: finish_defs)
  show ?thesis
    using kind_and_mode_handling [where baselinekind = "''avg''" and result = "''mean''", OF p1]
      kind_and_mode_handling [where baselinekind = "''zero''" and result = "''median''", OF p1]
      kind_and_mode_handling [where baselinekind = "''zero''" and result = "''median''",
        OF long_rewards_prepare]
    by (simp add: s1 s2 mean0_f_def dim1_def fsum_def)
qed



end
